theory Spec2Isabelle
  imports Main "HOL-Library.Sublist"
begin

section \<open>The signing pipeline of sign-android-release (src/src/signing.ts)\<close>

text \<open>
  The module drives three external tools (zipalign, apksigner, jarsigner) and derives the
  names of the files it writes from the name of its input. The model below keeps every
  effect of the TypeScript visible: the processes that are spawned, the debug log, the
  failure messages reported to the runner, and every exception as a value.
\<close>

subsection \<open>Strings\<close>

text \<open>
  \<open>String.prototype.replace\<close> with a string pattern, as ECMAScript defines it: the first
  occurrence of the pattern is looked for from the left; when there is none the string is
  returned unchanged; otherwise the result is the part before the occurrence, the
  substitution computed from the replacement, and the part after the occurrence.
  The patterns of this module are ASCII, so searching bytes and searching UTF-16 code
  units agree.
\<close>

fun split_first :: "string \<Rightarrow> string \<Rightarrow> (string \<times> string) option" where
  "split_first pat [] = (if pat = [] then Some ([], []) else None)"
| "split_first pat (c # cs) =
     (if prefix pat (c # cs) then Some ([], drop (length pat) (c # cs))
      else case split_first pat cs of
             None \<Rightarrow> None
           | Some (preceding, following) \<Rightarrow> Some (c # preceding, following))"

text \<open>
  \<open>GetSubstitution\<close> for a string pattern, which has no capture groups: \<open>$$\<close> gives a
  dollar sign, \<open>$&\<close> the matched text, \<open>$`\<close> the text before the match, \<open>$'\<close> the text
  after it; every other character, a dollar sign before a digit or \<open><\<close> included, stands
  for itself.
\<close>

fun get_substitution :: "string \<Rightarrow> string \<Rightarrow> string \<Rightarrow> string \<Rightarrow> string" where
  "get_substitution matched preceding following [] = []"
| "get_substitution matched preceding following [c] = [c]"
| "get_substitution matched preceding following (c # d # r) =
     (if c = CHR ''$'' \<and> d = CHR ''$'' then CHR ''$'' # get_substitution matched preceding following r
      else if c = CHR ''$'' \<and> d = CHR ''&'' then matched @ get_substitution matched preceding following r
      else if c = CHR ''$'' \<and> d = CHR 0x60 then preceding @ get_substitution matched preceding following r
      else if c = CHR ''$'' \<and> d = CHR 0x27 then following @ get_substitution matched preceding following r
      else c # get_substitution matched preceding following (d # r))"

definition js_replace :: "string \<Rightarrow> string \<Rightarrow> string \<Rightarrow> string" where
  "js_replace pat rep s =
     (case split_first pat s of
        None \<Rightarrow> s
      | Some (preceding, following) \<Rightarrow>
          preceding @ get_substitution pat preceding following rep @ following)"

text \<open>The pattern occurs somewhere in the string (what \<open>String.prototype.includes\<close> tests).\<close>

fun js_includes :: "string \<Rightarrow> string \<Rightarrow> bool" where
  "js_includes pat [] = (pat = [])"
| "js_includes pat (c # cs) = (prefix pat (c # cs) \<or> js_includes pat cs)"

text \<open>Two neighbouring elements of an argument list: a flag and its value.\<close>

fun has_pair :: "'a \<Rightarrow> 'a \<Rightarrow> 'a list \<Rightarrow> bool" where
  "has_pair a b (x # y # zs) = ((x = a \<and> y = b) \<or> has_pair a b (y # zs))"
| "has_pair a b _ = False"

text \<open>The template \<open>`"${p}"`\<close>: the path between two double quotes.\<close>

definition quoted :: "string \<Rightarrow> string" where
  "quoted p = [CHR 0x22] @ p @ [CHR 0x22]"

subsection \<open>Errors, the environment and the observable state\<close>

text \<open>Every exception of the module is a JavaScript \<open>Error\<close> carrying a message.\<close>

datatype error = Error string

fun message :: "error \<Rightarrow> string" where
  "message (Error m) = m"

text \<open>
  What the module reads from outside: the action inputs (\<open>core.getInput\<close>, the empty
  string when an input is not given), the process environment, \<open>fs.existsSync\<close>,
  \<open>io.which\<close> with its check flag set (it throws when the tool is not found), the outcome
  of running a command line given the processes run so far (\<open>None\<close> when it exits with
  status zero, otherwise the message of the error that \<open>exec.exec\<close> throws), and the
  platform's \<open>path.join\<close>.
\<close>

record world =
  core_getInput :: "string \<Rightarrow> string"
  process_env :: "string \<Rightarrow> string option"
  fs_existsSync :: "string \<Rightarrow> bool"
  io_which :: "string \<Rightarrow> error + string"
  exec_outcome :: "(string \<times> string list) list \<Rightarrow> string \<Rightarrow> string list \<Rightarrow> string option"
  path_join :: "string \<Rightarrow> string \<Rightarrow> string"

text \<open>
  What the module does to the outside: the debug lines written, the processes spawned
  (command line and argument list, in order), and the messages given to \<open>core.setFailed\<close>.
\<close>

record state =
  debugs :: "string list"
  execs :: "(string \<times> string list) list"
  failures :: "string list"

definition init_state :: state where
  "init_state = \<lparr>debugs = [], execs = [], failures = []\<rparr>"

definition core_debug :: "string \<Rightarrow> state \<Rightarrow> state" where
  "core_debug m s = s\<lparr>debugs := debugs s @ [m]\<rparr>"

definition core_setFailed :: "string \<Rightarrow> state \<Rightarrow> state" where
  "core_setFailed m s = s\<lparr>failures := failures s @ [m]\<rparr>"

text \<open>
  \<open>exec.exec\<close>: the process is spawned whatever its outcome; a failure is thrown after it.
\<close>

definition exec_exec :: "world \<Rightarrow> string \<Rightarrow> string list \<Rightarrow> state \<Rightarrow> (error + unit) \<times> state" where
  "exec_exec w commandLine args s =
     (let s' = s\<lparr>execs := execs s @ [(commandLine, args)]\<rparr>
      in case exec_outcome w (execs s) commandLine args of
           None \<Rightarrow> (Inr (), s')
         | Some m \<Rightarrow> (Inl (Error m), s'))"

subsection \<open>getBuildToolsPath\<close>

text \<open>
  The version is the first truthy value of the action input, the environment variable and
  the default; the empty string is falsy, as is an unset variable.
\<close>

definition buildToolsVersion :: "world \<Rightarrow> string" where
  "buildToolsVersion w =
     (if core_getInput w ''buildToolsVersion'' \<noteq> [] then core_getInput w ''buildToolsVersion''
      else case process_env w ''ANDROID_BUILD_TOOLS_VERSION'' of
             Some v \<Rightarrow> (if v \<noteq> [] then v else ''35.0.0'')
           | None \<Rightarrow> ''35.0.0'')"

definition msg_no_android_home :: string where
  "msg_no_android_home = ''ANDROID_HOME environment variable is not set.''"

definition msg_no_build_tools :: "string \<Rightarrow> string" where
  "msg_no_build_tools p =
     ''Couldn'' @ [CHR 0x27] @ ''t find the Android build tools @ '' @ p"

definition getBuildToolsPath :: "world \<Rightarrow> error + string" where
  "getBuildToolsPath w =
     (let v = buildToolsVersion w in
      case process_env w ''ANDROID_HOME'' of
        None \<Rightarrow> Inl (Error msg_no_android_home)
      | Some androidHome \<Rightarrow>
          if androidHome = [] then Inl (Error msg_no_android_home)
          else
            let buildToolsPath = path_join w androidHome (''build-tools/'' @ v)
            in if \<not> fs_existsSync w buildToolsPath
               then Inl (Error (msg_no_build_tools buildToolsPath))
               else Inr buildToolsPath)"

subsection \<open>alignApkFile, signFile, verifySignedFile\<close>

definition alignApkFile :: "world \<Rightarrow> string \<Rightarrow> string \<Rightarrow> state \<Rightarrow> (error + string) \<times> state" where
  "alignApkFile w apkFile zipAlign s =
     (let alignedApkFile = js_replace ''.apk'' ''-aligned.apk'' apkFile
      in case exec_exec w (quoted zipAlign) [''-c'', ''-v'', ''4'', apkFile] s of
           (Inl e, s1) \<Rightarrow> (Inl e, s1)
         | (Inr _, s1) \<Rightarrow>
             (case exec_exec w (quoted ''cp'') [apkFile, alignedApkFile] s1 of
                (Inl e, s2) \<Rightarrow> (Inl e, s2)
              | (Inr _, s2) \<Rightarrow> (Inr alignedApkFile, s2)))"

text \<open>
  The argument list of \<open>signFile\<close>; the spread \<open>...(keyPassword ? [..] : [])\<close> adds the
  key password pair when the optional parameter is truthy: defined and not empty.
\<close>

definition signFile_args ::
  "string \<Rightarrow> string \<Rightarrow> string \<Rightarrow> string \<Rightarrow> string option \<Rightarrow> string \<Rightarrow> string list" where
  "signFile_args fileToSign signingKeyFile alias keyStorePassword keyPassword signedFile =
     [''sign'',
      ''--ks'', signingKeyFile,
      ''--ks-key-alias'', alias,
      ''--ks-pass'', ''pass:'' @ keyStorePassword,
      ''--out'', signedFile]
     @ (case keyPassword of
          None \<Rightarrow> []
        | Some p \<Rightarrow> (if p \<noteq> [] then [''--key-pass'', ''pass:'' @ p] else []))
     @ [fileToSign]"

definition signFile ::
  "world \<Rightarrow> string \<Rightarrow> string \<Rightarrow> string \<Rightarrow> string \<Rightarrow> string \<Rightarrow> string option \<Rightarrow> string \<Rightarrow> string
     \<Rightarrow> state \<Rightarrow> (error + string) \<times> state" where
  "signFile w signerPath fileToSign signingKeyFile alias keyStorePassword keyPassword
            originalFile fileExtension s =
     (let signedFile = js_replace ''.apk'' fileExtension originalFile;
          args = signFile_args fileToSign signingKeyFile alias keyStorePassword keyPassword signedFile
      in case exec_exec w (quoted signerPath) args s of
           (Inl e, s1) \<Rightarrow> (Inl e, s1)
         | (Inr _, s1) \<Rightarrow> (Inr signedFile, s1))"

definition verifySignedFile :: "world \<Rightarrow> string \<Rightarrow> string \<Rightarrow> state \<Rightarrow> (error + unit) \<times> state" where
  "verifySignedFile w signerPath signedFile s =
     exec_exec w (quoted signerPath) [''verify'', signedFile] s"

subsection \<open>signApkFile\<close>

text \<open>The body of the \<open>try\<close> block.\<close>

definition found_msg :: "string \<Rightarrow> string \<Rightarrow> string" where
  "found_msg tool p = ''Found '' @ [CHR 0x27] @ tool @ [CHR 0x27] @ '' @ '' @ p"

definition signApkFile_try ::
  "world \<Rightarrow> string \<Rightarrow> string \<Rightarrow> string \<Rightarrow> string \<Rightarrow> string option \<Rightarrow> state
     \<Rightarrow> (error + string) \<times> state" where
  "signApkFile_try w apkFile signingKeyFile alias keyStorePassword keyPassword s =
     (let s0 = core_debug ''Zipaligning APK file'' s in
      case getBuildToolsPath w of
        Inl e \<Rightarrow> (Inl e, s0)
      | Inr buildToolsPath \<Rightarrow>
         (let zipAlign = path_join w buildToolsPath ''zipalign'';
              s1 = core_debug (found_msg ''zipalign'' zipAlign) s0
          in (case alignApkFile w apkFile zipAlign s1 of
               (Inl e, s2) \<Rightarrow> (Inl e, s2)
             | (Inr alignedApkFile, s2) \<Rightarrow>
                (let s3 = core_debug ''Signing APK file'' s2;
                     apkSigner = path_join w buildToolsPath ''apksigner'';
                     s4 = core_debug (found_msg ''apksigner'' apkSigner) s3
                 in (case signFile w apkSigner alignedApkFile signingKeyFile alias
                            keyStorePassword keyPassword apkFile ''-signed.apk'' s4 of
                      (Inl e, s5) \<Rightarrow> (Inl e, s5)
                    | (Inr signedApkFile, s5) \<Rightarrow>
                       (let s6 = core_debug ''Verifying Signed APK'' s5
                        in (case verifySignedFile w apkSigner signedApkFile s6 of
                             (Inl e, s7) \<Rightarrow> (Inl e, s7)
                           | (Inr _, s7) \<Rightarrow> (Inr signedApkFile, s7))))))))"

text \<open>The \<open>catch\<close> clause reports the failure and throws the error again.\<close>

definition signApkFile ::
  "world \<Rightarrow> string \<Rightarrow> string \<Rightarrow> string \<Rightarrow> string \<Rightarrow> string option \<Rightarrow> state
     \<Rightarrow> (error + string) \<times> state" where
  "signApkFile w apkFile signingKeyFile alias keyStorePassword keyPassword s =
     (case signApkFile_try w apkFile signingKeyFile alias keyStorePassword keyPassword s of
        (Inl e, s') \<Rightarrow> (Inl e, core_setFailed (''Failed to sign APK file: '' @ message e) s')
      | (Inr r, s') \<Rightarrow> (Inr r, s'))"

subsection \<open>signAabFile\<close>

definition signAabFile_args ::
  "string \<Rightarrow> string \<Rightarrow> string \<Rightarrow> string \<Rightarrow> string option \<Rightarrow> string list" where
  "signAabFile_args aabFile signingKeyFile alias keyStorePassword keyPassword =
     [''-keystore'', signingKeyFile,
      ''-storepass'', keyStorePassword]
     @ (case keyPassword of
          None \<Rightarrow> []
        | Some p \<Rightarrow> (if p \<noteq> [] then [''-keypass'', p] else []))
     @ [aabFile, alias]"

definition signAabFile_try ::
  "world \<Rightarrow> string \<Rightarrow> string \<Rightarrow> string \<Rightarrow> string \<Rightarrow> string option \<Rightarrow> state
     \<Rightarrow> (error + string) \<times> state" where
  "signAabFile_try w aabFile signingKeyFile alias keyStorePassword keyPassword s =
     (let s0 = core_debug ''Signing AAB file'' s in
      case io_which w ''jarsigner'' of
        Inl e \<Rightarrow> (Inl e, s0)
      | Inr jarSignerPath \<Rightarrow>
         (let s1 = core_debug (found_msg ''jarsigner'' jarSignerPath) s0;
              args = signAabFile_args aabFile signingKeyFile alias keyStorePassword keyPassword
          in (case exec_exec w (quoted jarSignerPath) args s1 of
               (Inl e, s2) \<Rightarrow> (Inl e, s2)
             | (Inr _, s2) \<Rightarrow> (Inr aabFile, s2))))"

definition signAabFile ::
  "world \<Rightarrow> string \<Rightarrow> string \<Rightarrow> string \<Rightarrow> string \<Rightarrow> string option \<Rightarrow> state
     \<Rightarrow> (error + string) \<times> state" where
  "signAabFile w aabFile signingKeyFile alias keyStorePassword keyPassword s =
     (case signAabFile_try w aabFile signingKeyFile alias keyStorePassword keyPassword s of
        (Inl e, s') \<Rightarrow> (Inl e, core_setFailed (''Failed to sign AAB file: '' @ message e) s')
      | (Inr r, s') \<Rightarrow> (Inr r, s'))"

subsection \<open>A concrete environment\<close>

text \<open>
  An SDK under \<open>/sdk\<close> whose build tools exist, a jarsigner on the path, POSIX path
  joining of plain segments, and tools that all exit with status zero.
\<close>

definition ok_world :: world where
  "ok_world = \<lparr>
     core_getInput = (\<lambda>_. []),
     process_env = (\<lambda>n. if n = ''ANDROID_HOME'' then Some ''/sdk'' else None),
     fs_existsSync = (\<lambda>_. True),
     io_which = (\<lambda>n. Inr (''/usr/bin/'' @ n)),
     exec_outcome = (\<lambda>_ _ _. None),
     path_join = (\<lambda>a b. a @ ''/'' @ b)\<rparr>"

text \<open>The same machine without \<open>ANDROID_HOME\<close>, and with no build-tools directory on disk.\<close>

definition no_home_world :: world where
  "no_home_world = ok_world\<lparr>process_env := (\<lambda>_. None)\<rparr>"

definition no_tools_world :: world where
  "no_tools_world = ok_world\<lparr>fs_existsSync := (\<lambda>_. False)\<rparr>"

section \<open>Properties of the name derivation\<close>

text \<open>
  Facts about replacing the first occurrence of \<open>.apk\<close>. The two replacements of the
  module, \<open>-aligned.apk\<close> and \<open>-signed.apk\<close>, have no dollar sign, so their substitution
  is the replacement itself. The pattern starts with a dot and has no other dot, so an
  occurrence cannot straddle the end of a prefix that is free of the pattern.
\<close>

lemma split_first_None: "split_first pat x = None \<longleftrightarrow> \<not> js_includes pat x"
  by (induction x) (auto split: option.splits)

lemma split_first_Some: "split_first pat x = Some (b, a) \<Longrightarrow> x = b @ pat @ a"
proof (induction x arbitrary: b)
  case Nil
  then show ?case by (simp split: if_splits)
next
  case (Cons c cs)
  show ?case
  proof (cases "prefix pat (c # cs)")
    case True
    then obtain zs where z: "c # cs = pat @ zs" by (auto simp: prefix_def)
    from True Cons.prems have "b = []" and "a = drop (length pat) (c # cs)" by simp_all
    with z show ?thesis by simp
  next
    case False
    with Cons.prems obtain b' where s: "split_first pat cs = Some (b', a)" and b: "b = c # b'"
      by (auto split: option.splits)
    from Cons.IH [OF s] b show ?thesis by simp
  qed
qed

lemma get_substitution_literal:
  "CHR ''$'' \<notin> set rep \<Longrightarrow> get_substitution m b a rep = rep"
  by (induction m b a rep rule: get_substitution.induct) auto

lemma js_replace_absent: "\<not> js_includes pat x \<Longrightarrow> js_replace pat rep x = x"
  by (simp add: js_replace_def split_first_None [symmetric])

lemma js_replace_present:
  assumes "js_includes pat x" and "CHR ''$'' \<notin> set rep"
  obtains b a where "x = b @ pat @ a" and "js_replace pat rep x = b @ rep @ a"
    and "split_first pat x = Some (b, a)"
proof -
  from assms(1) obtain b a where s: "split_first pat x = Some (b, a)"
    using split_first_None [of pat x] by (cases "split_first pat x") auto
  from s have "x = b @ pat @ a" by (rule split_first_Some)
  moreover from s assms(2) have "js_replace pat rep x = b @ rep @ a"
    by (simp add: js_replace_def get_substitution_literal)
  ultimately show thesis using s by (rule that)
qed

lemma js_includes_Nil: "js_includes [] y"
  by (cases y) simp_all

lemma js_includes_append_left: "js_includes pat x \<Longrightarrow> js_includes pat (x @ y)"
proof (induction x)
  case Nil
  then show ?case by (simp add: js_includes_Nil)
next
  case (Cons a x)
  show ?case
  proof (cases "prefix pat (a # x)")
    case True
    then have "prefix pat ((a # x) @ y)" by (rule prefix_prefix)
    then show ?thesis by simp
  next
    case False
    with Cons show ?thesis by simp
  qed
qed

lemma js_includes_append_right: "js_includes pat y \<Longrightarrow> js_includes pat (x @ y)"
  by (induction x) auto

lemma js_includes_self: "js_includes p p"
  by (cases p) auto

lemma apk_prefix_boundary:
  "prefix ''.apk'' (c # cs @ ''.apk'' @ post) \<Longrightarrow> prefix ''.apk'' (c # cs)"
  by (auto simp: prefix_append Cons_eq_append_conv append_eq_Cons_conv)

lemma split_first_apk:
  "\<not> js_includes ''.apk'' pre \<Longrightarrow> split_first ''.apk'' (pre @ ''.apk'' @ post) = Some (pre, post)"
proof (induction pre)
  case Nil
  show ?case by simp
next
  case (Cons c cs)
  from Cons.prems have np: "\<not> prefix ''.apk'' (c # cs)" and ni: "\<not> js_includes ''.apk'' cs"
    by simp_all
  from np have "\<not> prefix ''.apk'' (c # (cs @ ''.apk'' @ post))"
    using apk_prefix_boundary by blast
  then have "split_first ''.apk'' (c # (cs @ ''.apk'' @ post))
             = (case split_first ''.apk'' (cs @ ''.apk'' @ post) of
                  None \<Rightarrow> None
                | Some (preceding, following) \<Rightarrow> Some (c # preceding, following))"
    by (simp only: split_first.simps if_False)
  then show ?case using Cons.IH [OF ni] by (simp only: append_Cons option.case prod.case)
qed

lemma js_replace_first_apk:
  assumes "\<not> js_includes ''.apk'' pre" and "CHR ''$'' \<notin> set rep"
  shows "js_replace ''.apk'' rep (pre @ ''.apk'' @ post) = pre @ rep @ post"
proof -
  from assms(1) have "split_first ''.apk'' (pre @ ''.apk'' @ post) = Some (pre, post)"
    by (rule split_first_apk)
  then have "js_replace ''.apk'' rep (pre @ ''.apk'' @ post)
             = pre @ get_substitution ''.apk'' pre post rep @ post"
    by (simp only: js_replace_def option.case prod.case)
  with assms(2) show ?thesis by (simp add: get_substitution_literal)
qed

lemma js_replace_length:
  assumes "js_includes pat x" and "CHR ''$'' \<notin> set rep"
  shows "length (js_replace pat rep x) + length pat = length x + length rep"
proof -
  from assms obtain b a where "x = b @ pat @ a" and "js_replace pat rep x = b @ rep @ a"
    by (rule js_replace_present)
  then show ?thesis by simp
qed

lemma js_replace_keeps_occurrence:
  assumes "js_includes pat rep" and "js_includes pat x" and "CHR ''$'' \<notin> set rep"
  shows "js_includes pat (js_replace pat rep x)"
proof -
  from assms(2,3) obtain b a where r: "js_replace pat rep x = b @ rep @ a"
    by (rule js_replace_present)
  from assms(1) have "js_includes pat (rep @ a)" by (rule js_includes_append_left)
  then have "js_includes pat (b @ rep @ a)" by (rule js_includes_append_right)
  with r show ?thesis by simp
qed

lemma prefix_before_dash:
  assumes "prefix p (cs @ CHR ''-'' # r)" and "CHR ''-'' \<notin> set p"
  shows "prefix p cs"
proof -
  from assms(1) consider "prefix p cs" | us where "p = cs @ us" and "prefix us (CHR ''-'' # r)"
    by (auto simp: prefix_append)
  then show ?thesis
  proof cases
    case 1
    then show ?thesis .
  next
    case 2
    with assms(2) have "us = []" by (cases us) auto
    with 2 show ?thesis by simp
  qed
qed

lemma signed_infix_no_aligned:
  "\<not> js_includes ''-aligned'' (b @ ''.apk'' @ a) \<Longrightarrow> \<not> js_includes ''-aligned'' (b @ ''-signed.apk'' @ a)"
proof (induction b)
  case Nil
  then show ?case by auto
next
  case (Cons c cs)
  from Cons.prems have np: "\<not> prefix ''-aligned'' (c # (cs @ ''.apk'' @ a))"
    and ni: "\<not> js_includes ''-aligned'' (cs @ ''.apk'' @ a)"
    by simp_all
  have "\<not> prefix ''-aligned'' (c # (cs @ ''-signed.apk'' @ a))"
  proof
    assume "prefix ''-aligned'' (c # (cs @ ''-signed.apk'' @ a))"
    then have hc: "CHR ''-'' = c \<and> prefix ''aligned'' (cs @ ''-signed.apk'' @ a)"
      unfolding Cons_prefix_Cons .
    then have "prefix ''aligned'' (cs @ ''-signed.apk'' @ a)" by (rule conjunct2)
    then have "prefix ''aligned'' (cs @ CHR ''-'' # ''signed.apk'' @ a)" by simp
    then have "prefix ''aligned'' cs" by (rule prefix_before_dash) simp
    then have "prefix ''aligned'' (cs @ ''.apk'' @ a)" by (rule prefix_prefix)
    with hc have "prefix ''-aligned'' (c # (cs @ ''.apk'' @ a))"
      unfolding Cons_prefix_Cons by blast
    with np show False ..
  qed
  moreover from ni have "\<not> js_includes ''-aligned'' (cs @ ''-signed.apk'' @ a)"
    by (rule Cons.IH)
  ultimately show ?case by simp
qed

lemma signed_no_aligned:
  assumes "\<not> js_includes ''-aligned'' x"
  shows "\<not> js_includes ''-aligned'' (js_replace ''.apk'' ''-signed.apk'' x)"
proof (cases "js_includes ''.apk'' x")
  case False
  with assms show ?thesis by (simp add: js_replace_absent)
next
  case True
  moreover have "CHR ''$'' \<notin> set ''-signed.apk''" by simp
  ultimately obtain b a where x: "x = b @ ''.apk'' @ a"
    and r: "js_replace ''.apk'' ''-signed.apk'' x = b @ ''-signed.apk'' @ a"
    by (rule js_replace_present)
  from assms show ?thesis unfolding r unfolding x by (rule signed_infix_no_aligned)
qed

section \<open>Properties of the pipeline\<close>

subsection \<open>Spawned processes and returned names\<close>

lemma exec_exec_execs: "execs (snd (exec_exec w c a s)) = execs s @ [(c, a)]"
  by (simp add: exec_exec_def Let_def split: option.splits)

lemma exec_exec_fst:
  "fst (exec_exec w c a s) = (case exec_outcome w (execs s) c a of None \<Rightarrow> Inr () | Some m \<Rightarrow> Inl (Error m))"
  by (simp add: exec_exec_def Let_def split: option.splits)

lemma alignApkFile_result:
  "fst (alignApkFile w apkFile zipAlign s) = Inr r \<Longrightarrow> r = js_replace ''.apk'' ''-aligned.apk'' apkFile"
  by (auto simp: alignApkFile_def Let_def split: prod.splits sum.splits)

lemma signFile_result:
  "fst (signFile w sp f kf al ksp kp orig ext s) = Inr r \<Longrightarrow> r = js_replace ''.apk'' ext orig"
  by (auto simp: signFile_def Let_def split: prod.splits sum.splits)

lemma signFile_execs:
  "execs (snd (signFile w sp f kf al ksp kp orig ext s))
   = execs s @ [(quoted sp, signFile_args f kf al ksp kp (js_replace ''.apk'' ext orig))]"
  by (auto simp: signFile_def Let_def exec_exec_def split: prod.splits sum.splits option.splits)

lemma signed_differs_from_name_of_aligned:
  assumes "js_includes ''.apk'' x"
  shows "js_replace ''.apk'' ''-signed.apk'' x
         \<noteq> js_replace ''.apk'' ''-signed.apk'' (js_replace ''.apk'' ''-aligned.apk'' x)"
proof -
  have da: "CHR ''$'' \<notin> set ''-aligned.apk''" and ds: "CHR ''$'' \<notin> set ''-signed.apk''"
    by simp_all
  have "js_includes ''.apk'' ''-aligned.apk''" by simp
  then have i: "js_includes ''.apk'' (js_replace ''.apk'' ''-aligned.apk'' x)"
    using assms da by (rule js_replace_keeps_occurrence)
  from js_replace_length [OF assms ds] js_replace_length [OF assms da] js_replace_length [OF i ds]
  have "length (js_replace ''.apk'' ''-signed.apk'' x)
        \<noteq> length (js_replace ''.apk'' ''-signed.apk'' (js_replace ''.apk'' ''-aligned.apk'' x))"
    by simp
  then show ?thesis by metis
qed

lemma has_pair_out: "has_pair ''--out'' out (signFile_args f kf al ksp kp out)"
  by (simp add: signFile_args_def)

lemma signApkFile_execs:
  assumes "getBuildToolsPath w = Inr btp"
  shows "(let aligned = js_replace ''.apk'' ''-aligned.apk'' apkFile;
              signed = js_replace ''.apk'' ''-signed.apk'' apkFile;
              zipalign = (quoted (path_join w btp ''zipalign''), [''-c'', ''-v'', ''4'', apkFile]);
              copy = (quoted ''cp'', [apkFile, aligned]);
              sign = (quoted (path_join w btp ''apksigner''), signFile_args aligned kf al ksp kp signed);
              verify = (quoted (path_join w btp ''apksigner''), [''verify'', signed]);
              run = execs (snd (signApkFile w apkFile kf al ksp kp s))
          in run = execs s @ [zipalign] \<or> run = execs s @ [zipalign, copy] \<or>
             run = execs s @ [zipalign, copy, sign] \<or> run = execs s @ [zipalign, copy, sign, verify])"
  using assms
  by (simp add: signApkFile_def signApkFile_try_def alignApkFile_def signFile_def
        verifySignedFile_def exec_exec_def core_debug_def core_setFailed_def Let_def
        split: option.split)

lemma signApkFile_result:
  "fst (signApkFile w apkFile kf al ksp kp s) = Inr r \<Longrightarrow> r = js_replace ''.apk'' ''-signed.apk'' apkFile"
  by (simp add: signApkFile_def signApkFile_try_def alignApkFile_def signFile_def
        verifySignedFile_def exec_exec_def Let_def
        split: option.split_asm sum.split_asm)

subsection \<open>The align stage\<close>

text \<open>
  Claim C3. The align stage spawns zipalign once, in check mode, with the arguments
  \<open>-c -v 4\<close> and the original file; when that check exits with status zero it spawns
  \<open>cp\<close> from the original file to the \<open>-aligned.apk\<close> name, and it spawns nothing
  else: zipalign is never run in its aligning mode.
\<close>

theorem align_is_check_then_copy:
  "execs (snd (alignApkFile w apkFile zipAlign s))
   = execs s @ (quoted zipAlign, [''-c'', ''-v'', ''4'', apkFile])
       # (if exec_outcome w (execs s) (quoted zipAlign) [''-c'', ''-v'', ''4'', apkFile] = None
          then [(quoted ''cp'', [apkFile, js_replace ''.apk'' ''-aligned.apk'' apkFile])]
          else [])"
  by (auto simp: alignApkFile_def Let_def exec_exec_def split: prod.splits sum.splits option.splits)

theorem align_is_check_then_copy_witness:
  "execs (snd (alignApkFile ok_world ''foo.apk'' ''/sdk/build-tools/35.0.0/zipalign'' init_state))
   = [(quoted ''/sdk/build-tools/35.0.0/zipalign'', [''-c'', ''-v'', ''4'', ''foo.apk'']),
      (quoted ''cp'', [''foo.apk'', ''foo-aligned.apk''])]"
  using align_is_check_then_copy [of ok_world "''foo.apk''" "''/sdk/build-tools/35.0.0/zipalign''" init_state]
  by (simp add: ok_world_def init_state_def js_replace_def)

subsection \<open>The key password pair\<close>

text \<open>
  Claim C9. An empty key password behaves as an omitted one: \<open>signFile\<close>,
  \<open>signApkFile\<close> and \<open>signAabFile\<close> do the same in both cases, and the argument lists
  of apksigner and of jarsigner then carry no key password pair.
\<close>

theorem empty_key_password_is_omitted:
  "signFile w sp f kf al ksp (Some []) orig ext s = signFile w sp f kf al ksp None orig ext s \<and>
   signApkFile w apkFile kf al ksp (Some []) s = signApkFile w apkFile kf al ksp None s \<and>
   signAabFile w aabFile kf al ksp (Some []) s = signAabFile w aabFile kf al ksp None s \<and>
   signFile_args f kf al ksp None out
     = [''sign'', ''--ks'', kf, ''--ks-key-alias'', al, ''--ks-pass'', ''pass:'' @ ksp, ''--out'', out, f] \<and>
   signFile_args f kf al ksp (Some []) out
     = [''sign'', ''--ks'', kf, ''--ks-key-alias'', al, ''--ks-pass'', ''pass:'' @ ksp, ''--out'', out, f] \<and>
   signAabFile_args aabFile kf al ksp None = [''-keystore'', kf, ''-storepass'', ksp, aabFile, al] \<and>
   signAabFile_args aabFile kf al ksp (Some []) = [''-keystore'', kf, ''-storepass'', ksp, aabFile, al]"
proof -
  have a: "signFile_args f' kf al ksp (Some []) out' = signFile_args f' kf al ksp None out'"
    for f' out'
    by (simp add: signFile_args_def)
  have b: "signFile w sp' f' kf al ksp (Some []) orig' ext' s' = signFile w sp' f' kf al ksp None orig' ext' s'"
    for sp' f' orig' ext' s'
    unfolding signFile_def a by (rule refl)
  have c: "signApkFile w apkFile kf al ksp (Some []) s = signApkFile w apkFile kf al ksp None s"
    unfolding signApkFile_def signApkFile_try_def b by (rule refl)
  have d: "signAabFile_args aabFile kf al ksp (Some []) = signAabFile_args aabFile kf al ksp None"
    by (simp add: signAabFile_args_def)
  have e: "signAabFile w aabFile kf al ksp (Some []) s = signAabFile w aabFile kf al ksp None s"
    unfolding signAabFile_def signAabFile_try_def d by (rule refl)
  have g: "signFile_args f kf al ksp None out
     = [''sign'', ''--ks'', kf, ''--ks-key-alias'', al, ''--ks-pass'', ''pass:'' @ ksp, ''--out'', out, f]"
    by (simp add: signFile_args_def)
  have h: "signAabFile_args aabFile kf al ksp None = [''-keystore'', kf, ''-storepass'', ksp, aabFile, al]"
    by (simp add: signAabFile_args_def)
  from b c e g h show ?thesis unfolding a d by blast
qed

text \<open>
  Claim C2, as amended. Without a key password the argument list of the apksigner sign
  invocation is \<open>sign --ks <keyFile> --ks-key-alias <alias> --ks-pass pass:<password>
  --out <signedFile> <fileToSign>\<close>, in which \<open>--key-pass\<close> does not occur unless the
  key file, the alias or one of the two file names is that very string; with a key
  password that is not empty the list contains the pair \<open>--key-pass pass:<keyPassword>\<close>.
\<close>

theorem key_pass_pair_when_truthy:
  "snd (last (execs (snd (signFile w sp f kf al ksp None orig ext s))))
     = [''sign'', ''--ks'', kf, ''--ks-key-alias'', al, ''--ks-pass'', ''pass:'' @ ksp,
        ''--out'', js_replace ''.apk'' ext orig, f] \<and>
   (''--key-pass'' \<notin> {kf, al, js_replace ''.apk'' ext orig, f} \<longrightarrow>
      ''--key-pass'' \<notin> set (snd (last (execs (snd (signFile w sp f kf al ksp None orig ext s)))))) \<and>
   (p \<noteq> [] \<longrightarrow>
      has_pair ''--key-pass'' (''pass:'' @ p)
        (snd (last (execs (snd (signFile w sp f kf al ksp (Some p) orig ext s))))))"
  by (simp add: signFile_execs signFile_args_def)

theorem key_pass_pair_when_truthy_witness:
  "''--key-pass'' \<notin> {''key.jks'', ''alias'', js_replace ''.apk'' ''-signed.apk'' ''foo.apk'', ''foo-aligned.apk''} \<and>
   ''--key-pass'' \<notin> set (snd (last (execs (snd (signFile ok_world ''apksigner'' ''foo-aligned.apk''
        ''key.jks'' ''alias'' ''android'' None ''foo.apk'' ''-signed.apk'' init_state))))) \<and>
   ''secret'' \<noteq> [] \<and>
   has_pair ''--key-pass'' (''pass:'' @ ''secret'')
     (snd (last (execs (snd (signFile ok_world ''apksigner'' ''foo-aligned.apk''
        ''key.jks'' ''alias'' ''android'' (Some ''secret'') ''foo.apk'' ''-signed.apk'' init_state)))))"
proof -
  have v: "''--key-pass'' \<notin> {''key.jks'', ''alias'', js_replace ''.apk'' ''-signed.apk'' ''foo.apk'', ''foo-aligned.apk''}"
    by (simp add: js_replace_def)
  have n: "''secret'' \<noteq> []" by simp
  note t = key_pass_pair_when_truthy [of ok_world "''apksigner''" "''foo-aligned.apk''" "''key.jks''"
      "''alias''" "''android''" "''foo.apk''" "''-signed.apk''" init_state "''secret''"]
  from t [THEN conjunct2, THEN conjunct1] v
  have a: "''--key-pass'' \<notin> set (snd (last (execs (snd (signFile ok_world ''apksigner'' ''foo-aligned.apk''
        ''key.jks'' ''alias'' ''android'' None ''foo.apk'' ''-signed.apk'' init_state)))))"
    by (rule mp)
  from t [THEN conjunct2, THEN conjunct2] n
  have b: "has_pair ''--key-pass'' (''pass:'' @ ''secret'')
     (snd (last (execs (snd (signFile ok_world ''apksigner'' ''foo-aligned.apk''
        ''key.jks'' ''alias'' ''android'' (Some ''secret'') ''foo.apk'' ''-signed.apk'' init_state)))))"
    by (rule mp)
  from v a n b show ?thesis by (iprover intro: conjI)
qed

text \<open>
  Claim C2 as it was stated fails for a key password that is present and empty: the pair
  is left out.
\<close>

theorem key_pass_present_but_empty_counterexample:
  "\<not> has_pair ''--key-pass'' (''pass:'' @ [])
       (snd (last (execs (snd (signFile ok_world ''/sdk/build-tools/35.0.0/apksigner'' ''foo-aligned.apk''
          ''key.jks'' ''alias'' ''android'' (Some []) ''foo.apk'' ''-signed.apk'' init_state))))) \<and>
   ''--key-pass'' \<notin> set
       (snd (last (execs (snd (signFile ok_world ''/sdk/build-tools/35.0.0/apksigner'' ''foo-aligned.apk''
          ''key.jks'' ''alias'' ''android'' (Some []) ''foo.apk'' ''-signed.apk'' init_state)))))"
  by (simp add: signFile_execs signFile_args_def js_replace_def)

subsection \<open>The AAB pipeline\<close>

text \<open>
  Claim C6. Whenever \<open>signAabFile\<close> returns, it returns the path it was given; it does
  return when jarsigner is found and exits with status zero, and the file handed to
  jarsigner is that same path.
\<close>

theorem signAabFile_returns_its_input:
  "(fst (signAabFile w aabFile kf al ksp kp s) = Inr r \<longrightarrow> r = aabFile) \<and>
   (io_which w ''jarsigner'' = Inr j \<and>
    exec_outcome w (execs s) (quoted j) (signAabFile_args aabFile kf al ksp kp) = None
      \<longrightarrow> fst (signAabFile w aabFile kf al ksp kp s) = Inr aabFile \<and>
          execs (snd (signAabFile w aabFile kf al ksp kp s))
            = execs s @ [(quoted j, signAabFile_args aabFile kf al ksp kp)])"
  by (auto simp: signAabFile_def signAabFile_try_def Let_def exec_exec_def core_debug_def
           split: prod.splits sum.splits option.splits)

theorem signAabFile_returns_its_input_witness:
  "io_which ok_world ''jarsigner'' = Inr ''/usr/bin/jarsigner'' \<and>
   fst (signAabFile ok_world ''bar.aab'' ''key.jks'' ''alias'' ''android'' (Some ''android'') init_state)
     = Inr ''bar.aab'' \<and>
   execs (snd (signAabFile ok_world ''bar.aab'' ''key.jks'' ''alias'' ''android'' (Some ''android'') init_state))
     = [(quoted ''/usr/bin/jarsigner'',
         [''-keystore'', ''key.jks'', ''-storepass'', ''android'', ''-keypass'', ''android'',
          ''bar.aab'', ''alias''])]"
  using signAabFile_returns_its_input [where w = ok_world and j = "''/usr/bin/jarsigner''"
      and aabFile = "''bar.aab''" and kf = "''key.jks''" and al = "''alias''" and ksp = "''android''"
      and kp = "Some ''android''" and s = init_state and r = "''bar.aab''"]
  by (simp add: ok_world_def init_state_def signAabFile_args_def)

subsection \<open>Tool resolution\<close>

text \<open>
  Claim C7. When \<open>ANDROID_HOME\<close> is unset, resolving the build tools fails with the error
  that says so, \<open>signApkFile\<close> fails with that error and reports it, and no process has
  been spawned.
\<close>

theorem android_home_unset_fails_first:
  assumes "process_env w ''ANDROID_HOME'' = None"
  shows "getBuildToolsPath w = Inl (Error ''ANDROID_HOME environment variable is not set.'') \<and>
         fst (signApkFile w apkFile kf al ksp kp s)
           = Inl (Error ''ANDROID_HOME environment variable is not set.'') \<and>
         execs (snd (signApkFile w apkFile kf al ksp kp s)) = execs s \<and>
         failures (snd (signApkFile w apkFile kf al ksp kp s))
           = failures s @ [''Failed to sign APK file: ANDROID_HOME environment variable is not set.'']"
  using assms
  by (simp add: signApkFile_def signApkFile_try_def getBuildToolsPath_def Let_def
        msg_no_android_home_def core_debug_def core_setFailed_def)

theorem android_home_unset_fails_first_witness:
  "process_env no_home_world ''ANDROID_HOME'' = None \<and>
   fst (signApkFile no_home_world ''foo.apk'' ''key.jks'' ''alias'' ''android'' None init_state)
     = Inl (Error ''ANDROID_HOME environment variable is not set.'') \<and>
   execs (snd (signApkFile no_home_world ''foo.apk'' ''key.jks'' ''alias'' ''android'' None init_state)) = []"
proof -
  have h: "process_env no_home_world ''ANDROID_HOME'' = None"
    by (simp add: no_home_world_def ok_world_def)
  from android_home_unset_fails_first [OF h, of "''foo.apk''" "''key.jks''" "''alias''" "''android''" None init_state] h
  show ?thesis by (simp add: init_state_def)
qed

text \<open>
  Claim C8. When the directory \<open>build-tools/<version>\<close> under the SDK root does not
  exist, resolving the build tools fails and the message of the error contains the path
  that was looked for; \<open>signApkFile\<close> fails with that error before any process is spawned.
\<close>

theorem missing_build_tools_names_path:
  assumes "process_env w ''ANDROID_HOME'' = Some sdkRoot" and "sdkRoot \<noteq> []"
    and "\<not> fs_existsSync w (path_join w sdkRoot (''build-tools/'' @ buildToolsVersion w))"
  shows "getBuildToolsPath w
           = Inl (Error (msg_no_build_tools (path_join w sdkRoot (''build-tools/'' @ buildToolsVersion w)))) \<and>
         js_includes (path_join w sdkRoot (''build-tools/'' @ buildToolsVersion w))
           (msg_no_build_tools (path_join w sdkRoot (''build-tools/'' @ buildToolsVersion w))) \<and>
         fst (signApkFile w apkFile kf al ksp kp s)
           = Inl (Error (msg_no_build_tools (path_join w sdkRoot (''build-tools/'' @ buildToolsVersion w)))) \<and>
         execs (snd (signApkFile w apkFile kf al ksp kp s)) = execs s"
proof -
  let ?p = "path_join w sdkRoot (''build-tools/'' @ buildToolsVersion w)"
  from assms have g: "getBuildToolsPath w = Inl (Error (msg_no_build_tools ?p))"
    by (simp add: getBuildToolsPath_def Let_def)
  have "js_includes ?p (''Couldn'' @ [CHR 0x27] @ ''t find the Android build tools @ '' @ ?p)"
    by (intro js_includes_append_right js_includes_self)
  then have i: "js_includes ?p (msg_no_build_tools ?p)"
    by (simp only: msg_no_build_tools_def)
  from g have "fst (signApkFile w apkFile kf al ksp kp s) = Inl (Error (msg_no_build_tools ?p))"
    and "execs (snd (signApkFile w apkFile kf al ksp kp s)) = execs s"
    by (simp_all add: signApkFile_def signApkFile_try_def core_debug_def core_setFailed_def)
  with g i show ?thesis by blast
qed

theorem missing_build_tools_names_path_witness:
  "process_env no_tools_world ''ANDROID_HOME'' = Some ''/sdk'' \<and>
   \<not> fs_existsSync no_tools_world ''/sdk/build-tools/35.0.0'' \<and>
   getBuildToolsPath no_tools_world = Inl (Error (msg_no_build_tools ''/sdk/build-tools/35.0.0'')) \<and>
   js_includes ''/sdk/build-tools/35.0.0'' (msg_no_build_tools ''/sdk/build-tools/35.0.0'')"
proof -
  have h1: "process_env no_tools_world ''ANDROID_HOME'' = Some ''/sdk''"
    by (simp add: no_tools_world_def ok_world_def)
  have h2: "''/sdk'' \<noteq> []" by simp
  have v: "buildToolsVersion no_tools_world = ''35.0.0''"
    by (simp add: buildToolsVersion_def no_tools_world_def ok_world_def)
  have j: "path_join no_tools_world ''/sdk'' (''build-tools/'' @ buildToolsVersion no_tools_world)
           = ''/sdk/build-tools/35.0.0''"
    by (simp add: v) (simp add: no_tools_world_def ok_world_def)
  have h3: "\<not> fs_existsSync no_tools_world
              (path_join no_tools_world ''/sdk'' (''build-tools/'' @ buildToolsVersion no_tools_world))"
    by (simp add: no_tools_world_def ok_world_def)
  from missing_build_tools_names_path [OF h1 h2 h3] h1 h3 show ?thesis
    unfolding j by blast
qed

subsection \<open>The derived names\<close>

text \<open>
  Claim C10. The name that the align stage returns and the name that the sign stage
  returns are the input path with its first occurrence of \<open>.apk\<close> replaced, whatever
  follows that occurrence; a path with no occurrence of \<open>.apk\<close> is returned unchanged by
  both.
\<close>

theorem derivation_replaces_first_occurrence:
  assumes "fst (alignApkFile w apkFile zipAlign s) = Inr aligned"
      and "fst (signFile w sp f kf al ksp kp apkFile ''-signed.apk'' t) = Inr signed"
  shows "(\<not> js_includes ''.apk'' apkFile \<longrightarrow> aligned = apkFile \<and> signed = apkFile) \<and>
         (apkFile = pre @ ''.apk'' @ post \<and> \<not> js_includes ''.apk'' pre \<longrightarrow>
            aligned = pre @ ''-aligned.apk'' @ post \<and> signed = pre @ ''-signed.apk'' @ post)"
proof -
  from assms(1) have a: "aligned = js_replace ''.apk'' ''-aligned.apk'' apkFile"
    by (rule alignApkFile_result)
  from assms(2) have b: "signed = js_replace ''.apk'' ''-signed.apk'' apkFile"
    by (rule signFile_result)
  have f1: "js_replace ''.apk'' ''-aligned.apk'' (pre @ ''.apk'' @ post) = pre @ ''-aligned.apk'' @ post"
    if "\<not> js_includes ''.apk'' pre"
    using that by (rule js_replace_first_apk) simp
  have f2: "js_replace ''.apk'' ''-signed.apk'' (pre @ ''.apk'' @ post) = pre @ ''-signed.apk'' @ post"
    if "\<not> js_includes ''.apk'' pre"
    using that by (rule js_replace_first_apk) simp
  show ?thesis unfolding a b
    using js_replace_absent f1 f2 by blast
qed

theorem derivation_replaces_first_occurrence_witness:
  "fst (alignApkFile ok_world ''app.apk.apk'' ''zipalign'' init_state) = Inr ''app-aligned.apk.apk'' \<and>
   fst (signFile ok_world ''apksigner'' ''app-aligned.apk.apk'' ''key.jks'' ''alias'' ''android'' None
          ''app.apk.apk'' ''-signed.apk'' init_state) = Inr ''app-signed.apk.apk'' \<and>
   \<not> js_includes ''.apk'' ''app'' \<and>
   fst (alignApkFile ok_world ''bar.aab'' ''zipalign'' init_state) = Inr ''bar.aab'' \<and>
   fst (signFile ok_world ''apksigner'' ''bar.aab'' ''key.jks'' ''alias'' ''android'' None
          ''bar.aab'' ''-signed.apk'' init_state) = Inr ''bar.aab'' \<and>
   \<not> js_includes ''.apk'' ''bar.aab''"
proof -
  have a1: "fst (alignApkFile ok_world ''app.apk.apk'' ''zipalign'' init_state) = Inr ''app-aligned.apk.apk''"
    by (simp add: alignApkFile_def exec_exec_def ok_world_def js_replace_def Let_def)
  have b1: "fst (signFile ok_world ''apksigner'' ''app-aligned.apk.apk'' ''key.jks'' ''alias'' ''android'' None
          ''app.apk.apk'' ''-signed.apk'' init_state) = Inr ''app-signed.apk.apk''"
    by (simp add: signFile_def exec_exec_def ok_world_def js_replace_def Let_def)
  have a2: "fst (alignApkFile ok_world ''bar.aab'' ''zipalign'' init_state) = Inr ''bar.aab''"
    by (simp add: alignApkFile_def exec_exec_def ok_world_def js_replace_def Let_def)
  have b2: "fst (signFile ok_world ''apksigner'' ''bar.aab'' ''key.jks'' ''alias'' ''android'' None
          ''bar.aab'' ''-signed.apk'' init_state) = Inr ''bar.aab''"
    by (simp add: signFile_def exec_exec_def ok_world_def js_replace_def Let_def)
  have n1: "\<not> js_includes ''.apk'' ''app''" by simp
  have n2: "\<not> js_includes ''.apk'' ''bar.aab''" by simp
  note derivation_replaces_first_occurrence [OF a1 b1, of "''app''" "''.apk''"]
    derivation_replaces_first_occurrence [OF a2 b2, of "''app''" "''.apk''"]
  with a1 b1 a2 b2 n1 n2 show ?thesis by blast
qed

text \<open>
  Claim C5, as amended. The derived names depend on the input name alone: two runs on
  one input name return the same aligned name and the same signed name, whatever the
  environment, the tool paths and the credentials. Applying a derivation to its own output
  gives the same name again exactly when the input name contains no \<open>.apk\<close>; otherwise
  the infix is inserted once more.
\<close>

theorem derived_names_deterministic_not_idempotent:
  "(fst (alignApkFile w1 apkFile z1 s1) = Inr a1 \<and> fst (alignApkFile w2 apkFile z2 s2) = Inr a2
      \<longrightarrow> a1 = a2) \<and>
   (fst (signFile w1 sp1 f1 kf1 al1 ksp1 kp1 apkFile ''-signed.apk'' t1) = Inr b1 \<and>
    fst (signFile w2 sp2 f2 kf2 al2 ksp2 kp2 apkFile ''-signed.apk'' t2) = Inr b2
      \<longrightarrow> b1 = b2) \<and>
   (js_replace ''.apk'' ''-aligned.apk'' (js_replace ''.apk'' ''-aligned.apk'' apkFile)
      = js_replace ''.apk'' ''-aligned.apk'' apkFile \<longleftrightarrow> \<not> js_includes ''.apk'' apkFile) \<and>
   (js_replace ''.apk'' ''-signed.apk'' (js_replace ''.apk'' ''-signed.apk'' apkFile)
      = js_replace ''.apk'' ''-signed.apk'' apkFile \<longleftrightarrow> \<not> js_includes ''.apk'' apkFile)"
proof -
  have idem: "(js_replace ''.apk'' rep (js_replace ''.apk'' rep x) = js_replace ''.apk'' rep x)
                = (\<not> js_includes ''.apk'' x)"
    if r: "js_includes ''.apk'' rep" and l: "length rep \<noteq> 4" and d: "CHR ''$'' \<notin> set rep"
    for rep x
  proof (cases "js_includes ''.apk'' x")
    case False
    then show ?thesis by (simp add: js_replace_absent)
  next
    case True
    with r have "js_includes ''.apk'' (js_replace ''.apk'' rep x)"
      using d by (rule js_replace_keeps_occurrence)
    then have "length (js_replace ''.apk'' rep (js_replace ''.apk'' rep x)) + length ''.apk''
               = length (js_replace ''.apk'' rep x) + length rep"
      using d by (rule js_replace_length)
    with l have "js_replace ''.apk'' rep (js_replace ''.apk'' rep x) \<noteq> js_replace ''.apk'' rep x"
      by auto
    with True show ?thesis by simp
  qed
  have i1: "js_includes ''.apk'' ''-aligned.apk''" by simp
  have i2: "js_includes ''.apk'' ''-signed.apk''" by simp
  have d1: "fst (alignApkFile w1 apkFile z1 s1) = Inr a1 \<and> fst (alignApkFile w2 apkFile z2 s2) = Inr a2
      \<longrightarrow> a1 = a2"
    by (auto dest!: alignApkFile_result)
  have d2: "fst (signFile w1 sp1 f1 kf1 al1 ksp1 kp1 apkFile ''-signed.apk'' t1) = Inr b1 \<and>
    fst (signFile w2 sp2 f2 kf2 al2 ksp2 kp2 apkFile ''-signed.apk'' t2) = Inr b2
      \<longrightarrow> b1 = b2"
    by (auto dest!: signFile_result)
  from d1 d2 idem [OF i1] idem [OF i2] show ?thesis by simp
qed

theorem derived_names_deterministic_not_idempotent_witness:
  "fst (alignApkFile ok_world ''foo.apk'' ''/sdk/build-tools/35.0.0/zipalign'' init_state) = Inr ''foo-aligned.apk'' \<and>
   fst (alignApkFile no_tools_world ''foo.apk'' ''zipalign'' (core_debug ''second run'' init_state))
     = Inr ''foo-aligned.apk'' \<and>
   fst (signFile ok_world ''apksigner'' ''foo-aligned.apk'' ''key.jks'' ''alias'' ''android'' None
          ''foo.apk'' ''-signed.apk'' init_state) = Inr ''foo-signed.apk'' \<and>
   fst (signFile no_tools_world ''/opt/apksigner'' ''foo-aligned.apk'' ''other.jks'' ''key0'' ''secret''
          (Some ''secret'') ''foo.apk'' ''-signed.apk'' (core_debug ''second run'' init_state))
     = Inr ''foo-signed.apk''"
proof -
  have a1: "fst (alignApkFile ok_world ''foo.apk'' ''/sdk/build-tools/35.0.0/zipalign'' init_state)
            = Inr ''foo-aligned.apk''"
    by (simp add: alignApkFile_def exec_exec_def ok_world_def js_replace_def Let_def)
  have a2: "fst (alignApkFile no_tools_world ''foo.apk'' ''zipalign'' (core_debug ''second run'' init_state))
            = Inr ''foo-aligned.apk''"
    by (simp add: alignApkFile_def exec_exec_def no_tools_world_def ok_world_def js_replace_def Let_def)
  have b1: "fst (signFile ok_world ''apksigner'' ''foo-aligned.apk'' ''key.jks'' ''alias'' ''android'' None
          ''foo.apk'' ''-signed.apk'' init_state) = Inr ''foo-signed.apk''"
    by (simp add: signFile_def exec_exec_def ok_world_def js_replace_def Let_def)
  have b2: "fst (signFile no_tools_world ''/opt/apksigner'' ''foo-aligned.apk'' ''other.jks'' ''key0'' ''secret''
          (Some ''secret'') ''foo.apk'' ''-signed.apk'' (core_debug ''second run'' init_state))
     = Inr ''foo-signed.apk''"
    by (simp add: signFile_def exec_exec_def no_tools_world_def ok_world_def js_replace_def Let_def)
  note derived_names_deterministic_not_idempotent
    [where ?w1.0 = ok_world and ?w2.0 = no_tools_world and apkFile = "''foo.apk''"
       and ?a1.0 = "''foo-aligned.apk''" and ?a2.0 = "''foo-aligned.apk''"]
  with a1 a2 b1 b2 show ?thesis by blast
qed

text \<open>
  Claim C5 as it was stated fails: the derivation applied to its own output does not give
  the same name for \<open>foo.apk\<close>.
\<close>

theorem derived_names_idempotent_counterexample:
  "fst (alignApkFile ok_world ''foo.apk'' ''zipalign'' init_state) = Inr ''foo-aligned.apk'' \<and>
   fst (alignApkFile ok_world ''foo-aligned.apk'' ''zipalign'' init_state) = Inr ''foo-aligned-aligned.apk'' \<and>
   fst (alignApkFile ok_world ''foo-aligned.apk'' ''zipalign'' init_state)
     \<noteq> fst (alignApkFile ok_world ''foo.apk'' ''zipalign'' init_state) \<and>
   fst (signFile ok_world ''apksigner'' ''foo-aligned.apk'' ''key.jks'' ''alias'' ''android'' None
          ''foo.apk'' ''-signed.apk'' init_state) = Inr ''foo-signed.apk'' \<and>
   fst (signFile ok_world ''apksigner'' ''foo-aligned.apk'' ''key.jks'' ''alias'' ''android'' None
          ''foo-signed.apk'' ''-signed.apk'' init_state) = Inr ''foo-signed-signed.apk''"
  by (simp add: alignApkFile_def signFile_def exec_exec_def ok_world_def js_replace_def Let_def)

text \<open>
  Claim C1. The names are meant to be the input with its extension replaced, whatever the
  directories; the code replaces the first \<open>.apk\<close> of the whole path instead. For
  \<open>foo.apk\<close> in a directory named \<open>builds.apk\<close> the aligned and the signed names are
  not \<open>builds.apk/foo-aligned.apk\<close> and \<open>builds.apk/foo-signed.apk\<close>: the whole run
  copies to, signs into and returns a path in a different directory.
\<close>

theorem signApkFile_first_apk_in_directory_name:
  "fst (signApkFile ok_world ''builds.apk/foo.apk'' ''key.jks'' ''alias'' ''android'' None init_state)
     = Inr ''builds-signed.apk/foo.apk'' \<and>
   execs (snd (signApkFile ok_world ''builds.apk/foo.apk'' ''key.jks'' ''alias'' ''android'' None init_state))
     = [(quoted ''/sdk/build-tools/35.0.0/zipalign'', [''-c'', ''-v'', ''4'', ''builds.apk/foo.apk'']),
        (quoted ''cp'', [''builds.apk/foo.apk'', ''builds-aligned.apk/foo.apk'']),
        (quoted ''/sdk/build-tools/35.0.0/apksigner'',
         [''sign'', ''--ks'', ''key.jks'', ''--ks-key-alias'', ''alias'', ''--ks-pass'', ''pass:android'',
          ''--out'', ''builds-signed.apk/foo.apk'', ''builds-aligned.apk/foo.apk'']),
        (quoted ''/sdk/build-tools/35.0.0/apksigner'', [''verify'', ''builds-signed.apk/foo.apk''])]"
proof -
  have g: "getBuildToolsPath ok_world = Inr ''/sdk/build-tools/35.0.0''"
    by (simp add: getBuildToolsPath_def buildToolsVersion_def ok_world_def Let_def)
  have j: "path_join ok_world a b = a @ ''/'' @ b" for a b
    by (simp add: ok_world_def)
  have x: "exec_outcome ok_world h c a = None" for h c a
    by (simp add: ok_world_def)
  show ?thesis
    by (simp add: signApkFile_def signApkFile_try_def g j x alignApkFile_def signFile_def js_replace_def
          verifySignedFile_def exec_exec_def signFile_args_def core_debug_def init_state_def Let_def)
qed

subsection \<open>The output path of the sign stage\<close>

text \<open>
  Claim C4, as amended. Once the build tools are resolved, a run of \<open>signApkFile\<close>
  spawns a prefix of: the zipalign check, the copy, apksigner sign, apksigner verify. The
  sign invocation signs the aligned file, and the path it is given after \<open>--out\<close> is the
  \<open>-signed.apk\<close> substitution applied to the original input path; that path is what
  \<open>signApkFile\<close> returns. For an input that contains \<open>.apk\<close> it differs from the name
  that the same substitution gives on the aligned file, and it contains \<open>-aligned\<close> only
  if the original input path does.
\<close>

theorem signed_out_derived_from_original:
  assumes "getBuildToolsPath w = Inr btp"
  shows "(let aligned = js_replace ''.apk'' ''-aligned.apk'' apkFile;
              signed = js_replace ''.apk'' ''-signed.apk'' apkFile;
              zipalign = (quoted (path_join w btp ''zipalign''), [''-c'', ''-v'', ''4'', apkFile]);
              copy = (quoted ''cp'', [apkFile, aligned]);
              sign = (quoted (path_join w btp ''apksigner''), signFile_args aligned kf al ksp kp signed);
              verify = (quoted (path_join w btp ''apksigner''), [''verify'', signed]);
              run = execs (snd (signApkFile w apkFile kf al ksp kp s))
          in (run = execs s @ [zipalign] \<or> run = execs s @ [zipalign, copy] \<or>
              run = execs s @ [zipalign, copy, sign] \<or> run = execs s @ [zipalign, copy, sign, verify]) \<and>
             has_pair ''--out'' signed (snd sign) \<and>
             (fst (signApkFile w apkFile kf al ksp kp s) = Inr r \<longrightarrow> r = signed) \<and>
             (js_includes ''.apk'' apkFile \<longrightarrow> signed \<noteq> js_replace ''.apk'' ''-signed.apk'' aligned) \<and>
             (\<not> js_includes ''-aligned'' apkFile \<longrightarrow> \<not> js_includes ''-aligned'' signed))"
proof -
  note t = signApkFile_execs [OF assms, of apkFile kf al ksp kp s, unfolded Let_def]
  note p = has_pair_out [of "js_replace ''.apk'' ''-signed.apk'' apkFile"
      "js_replace ''.apk'' ''-aligned.apk'' apkFile" kf al ksp kp]
  note r = signApkFile_result [of w apkFile kf al ksp kp s r]
  note d = signed_differs_from_name_of_aligned [of apkFile]
  note n = signed_no_aligned [of apkFile]
  show ?thesis unfolding Let_def snd_conv
    using t p r d n by blast
qed

theorem signed_out_derived_from_original_witness:
  "getBuildToolsPath ok_world = Inr ''/sdk/build-tools/35.0.0'' \<and>
   js_includes ''.apk'' ''foo.apk'' \<and>
   \<not> js_includes ''-aligned'' ''foo.apk'' \<and>
   fst (signApkFile ok_world ''foo.apk'' ''key.jks'' ''alias'' ''android'' None init_state)
     = Inr ''foo-signed.apk'' \<and>
   js_replace ''.apk'' ''-signed.apk'' ''foo.apk''
     \<noteq> js_replace ''.apk'' ''-signed.apk'' (js_replace ''.apk'' ''-aligned.apk'' ''foo.apk'') \<and>
   \<not> js_includes ''-aligned'' (js_replace ''.apk'' ''-signed.apk'' ''foo.apk'')"
proof -
  have g: "getBuildToolsPath ok_world = Inr ''/sdk/build-tools/35.0.0''"
    by (simp add: getBuildToolsPath_def buildToolsVersion_def ok_world_def Let_def)
  have j: "path_join ok_world a b = a @ ''/'' @ b" for a b
    by (simp add: ok_world_def)
  have x: "exec_outcome ok_world h c a = None" for h c a
    by (simp add: ok_world_def)
  have i: "js_includes ''.apk'' ''foo.apk''" by simp
  have n: "\<not> js_includes ''-aligned'' ''foo.apk''" by simp
  have f: "fst (signApkFile ok_world ''foo.apk'' ''key.jks'' ''alias'' ''android'' None init_state)
     = Inr ''foo-signed.apk''"
    by (simp add: signApkFile_def signApkFile_try_def g j x alignApkFile_def signFile_def js_replace_def
          verifySignedFile_def exec_exec_def Let_def)
  note t = signed_out_derived_from_original [OF g, of "''foo.apk''" "''key.jks''" "''alias''" "''android''"
      None init_state "''foo-signed.apk''", unfolded Let_def]
  from t [THEN conjunct2, THEN conjunct2, THEN conjunct2, THEN conjunct1] i
  have d: "js_replace ''.apk'' ''-signed.apk'' ''foo.apk''
     \<noteq> js_replace ''.apk'' ''-signed.apk'' (js_replace ''.apk'' ''-aligned.apk'' ''foo.apk'')"
    by (rule mp)
  from t [THEN conjunct2, THEN conjunct2, THEN conjunct2, THEN conjunct2] n
  have a: "\<not> js_includes ''-aligned'' (js_replace ''.apk'' ''-signed.apk'' ''foo.apk'')"
    by (rule mp)
  from g i n f d a show ?thesis by (iprover intro: conjI)
qed

text \<open>
  Claim C4 as it was stated fails for an input whose own name contains \<open>-aligned\<close>, such
  as the aligned copy that an earlier run left in the directory: the infix is in the signed
  output path.
\<close>

theorem signed_out_keeps_aligned_infix_counterexample:
  "fst (signApkFile ok_world ''foo-aligned.apk'' ''key.jks'' ''alias'' ''android'' None init_state)
     = Inr ''foo-aligned-signed.apk'' \<and>
   has_pair ''--out'' ''foo-aligned-signed.apk''
     (snd (execs (snd (signApkFile ok_world ''foo-aligned.apk'' ''key.jks'' ''alias'' ''android'' None
                         init_state)) ! 2)) \<and>
   js_includes ''-aligned'' ''foo-aligned-signed.apk''"
proof -
  have g: "getBuildToolsPath ok_world = Inr ''/sdk/build-tools/35.0.0''"
    by (simp add: getBuildToolsPath_def buildToolsVersion_def ok_world_def Let_def)
  have j: "path_join ok_world a b = a @ ''/'' @ b" for a b
    by (simp add: ok_world_def)
  have x: "exec_outcome ok_world h c a = None" for h c a
    by (simp add: ok_world_def)
  show ?thesis
    by (simp add: signApkFile_def signApkFile_try_def g j x alignApkFile_def signFile_def js_replace_def
          verifySignedFile_def exec_exec_def signFile_args_def core_debug_def init_state_def Let_def)
qed

end
